theory Spec2Isabelle
  imports Main "HOL-Library.List_Lexorder"
begin

section \<open>Version strings (\<open>packaging.version\<close>)\<close>

text \<open>
  \<open>agents/tasks.py\<close> compares agent versions with \<open>pyver.parse(a) <= pyver.parse(b)\<close>.
  The library is outside the repository; it is modelled for release-only version strings
  (\<open>N(.N)*\<close>, the form of every agent version): the parsed value is the tuple of the
  release numbers, two versions compare as these tuples with their trailing zeros
  removed, lexicographically, and any other string raises \<open>InvalidVersion\<close>.
\<close>

datatype error =
    DoesNotExist
  | InvalidVersion
  | KeyError
  | TypeError
  | AttributeError
  | NotifierError

type_synonym pyver = "nat list"

definition is_digit :: "char \<Rightarrow> bool" where
  "is_digit c = (48 \<le> (of_char c :: nat) \<and> (of_char c :: nat) \<le> 57)"

definition digit_val :: "char \<Rightarrow> nat" where
  "digit_val c = of_char c - 48"

fun split_on :: "char \<Rightarrow> string \<Rightarrow> string list" where
  "split_on d [] = [[]]"
| "split_on d (c # cs) =
     (if c = d then [] # split_on d cs
      else (case split_on d cs of
              [] \<Rightarrow> [[c]]
            | w # ws \<Rightarrow> (c # w) # ws))"

definition parse_int :: "string \<Rightarrow> nat option" where
  "parse_int s =
     (if s \<noteq> [] \<and> list_all is_digit s
      then Some (foldl (\<lambda>n c. 10 * n + digit_val c) 0 s)
      else None)"

definition pyver_parse :: "string \<Rightarrow> pyver option" where
  "pyver_parse s = those (map parse_int (split_on (CHR ''.'') s))"

definition ver_key :: "pyver \<Rightarrow> nat list" where
  "ver_key v = rev (dropWhile (\<lambda>x. x = 0) (rev v))"

definition pyver_le :: "pyver \<Rightarrow> pyver \<Rightarrow> bool" where
  "pyver_le a b = (ver_key a \<le> ver_key b)"

definition pyver_lt :: "pyver \<Rightarrow> pyver \<Rightarrow> bool" where
  "pyver_lt a b = (ver_key a < ver_key b)"

text \<open>\<open>pyver.parse(a) <= pyver.parse(b)\<close> and \<open>pyver.parse(a) < pyver.parse(b)\<close>, with the raise.\<close>

definition parse_le :: "string \<Rightarrow> string \<Rightarrow> error + bool" where
  "parse_le a b =
     (case pyver_parse a of
        None \<Rightarrow> Inl InvalidVersion
      | Some x \<Rightarrow>
          (case pyver_parse b of
             None \<Rightarrow> Inl InvalidVersion
           | Some y \<Rightarrow> Inr (pyver_le x y)))"

definition parse_lt :: "string \<Rightarrow> string \<Rightarrow> error + bool" where
  "parse_lt a b =
     (case pyver_parse a of
        None \<Rightarrow> Inl InvalidVersion
      | Some x \<Rightarrow>
          (case pyver_parse b of
             None \<Rightarrow> Inl InvalidVersion
           | Some y \<Rightarrow> Inr (pyver_lt x y)))"

section \<open>Data model\<close>

text \<open>
  The Django models (\<open>agents/models.py\<close>, \<open>logs/models.py\<close>) are not part of the sources
  at hand. The records below carry the fields that \<open>agents/tasks.py\<close> reads and writes.
  The derived properties \<open>winagent_dl\<close> and \<open>win_inno_exe\<close> of an agent are taken as
  given values of the agent. Times are in minutes.
\<close>

record agent =
  agent_pk :: nat
  hostname :: string
  version :: string
  arch :: "string option"
  has_nats :: bool
  last_seen :: "nat option"
  overdue_time :: nat
  offline_time :: nat
  overdue_email_alert :: bool
  overdue_text_alert :: bool
  maintenance_mode :: bool
  winagent_dl :: string
  win_inno_exe :: string

text \<open>
  Modelled from the spec: the derived property \<open>Agent.status\<close> (missing
  \<open>agents/models.py\<close>). It is computed at each read from the agent's \<open>last_seen\<close> and the
  clock: an agent is overdue when the time since it was last seen exceeds its configured
  threshold \<open>overdue_time\<close>. The spec gives no rule for the other two values: here an
  agent that is not overdue is offline when it was never seen or was last seen more than
  \<open>offline_time\<close> ago, and online otherwise. \<open>now\<close> is the clock at the read.
\<close>

definition status :: "nat \<Rightarrow> agent \<Rightarrow> string" where
  "status now a =
     (case last_seen a of
        None \<Rightarrow> ''offline''
      | Some seen \<Rightarrow>
          if overdue_time a < now - seen then ''overdue''
          else if offline_time a < now - seen then ''offline''
          else ''online'')"

record pending_action =
  pa_pk :: nat
  pa_agent :: nat
  action_type :: string
  pa_status :: string
  details :: "(string \<times> string) list"

record agent_outage =
  outage_pk :: nat
  outage_agent :: nat
  recovery_time :: "nat option"
  outage_email_sent :: bool
  outage_sms_sent :: bool
  recovery_email_sent :: bool
  recovery_sms_sent :: bool

text \<open>
  Modelled from the spec: \<open>AgentOutage.is_active\<close> (a property of the missing
  \<open>agents/models.py\<close>): an outage is active while no resolution is recorded.
\<close>

definition is_active :: "agent_outage \<Rightarrow> bool" where
  "is_active outage = (recovery_time outage = None)"

record nats_data =
  func :: string
  payload :: "(string \<times> string) list"

datatype level = INFO | WARNING | ERROR

datatype job =
    Agent_outage_email_task nat
  | Agent_outage_sms_task nat

datatype jv = JStr string | JInt int

record http_post =
  post_url :: string
  post_json :: "(string \<times> jv) list"
  post_timeout :: nat

datatype notification =
    Outage_email nat
  | Recovery_email nat
  | Outage_sms nat
  | Recovery_sms nat

record script =
  script_pk :: nat
  script_name :: string

record core_settings =
  agent_auto_update :: bool
  smtp_from_email :: string
  email_alert_recipients :: "string list"
  smtp_host :: string
  smtp_port :: nat
  smtp_requires_auth :: bool
  smtp_host_user :: string
  smtp_host_password :: string

record email_message =
  msg_subject :: string
  msg_from :: string
  msg_to :: string
  msg_content :: string

datatype smtp_op =
    Connect string nat nat
  | Ehlo
  | Starttls
  | Login string string
  | Send_message email_message
  | Quit

record settings =
  LATEST_AGENT_VER :: string
  SALT_HOST :: string
  SALT_USERNAME :: string
  SALT_PASSWORD :: string

text \<open>
  The registry tables and the traces of the effects on the outside world. A table is the
  list of its rows in primary-key order: a new row takes the next key and goes last, and
  \<open>.last()\<close> of a queryset without an explicit order is its row with the greatest key.
\<close>

record world =
  agents :: "agent list"
  pendingactions :: "pending_action list"
  next_pendingaction_pk :: nat
  agentoutages :: "agent_outage list"
  next_agentoutage_pk :: nat
  scripts :: "script list"
  core :: "core_settings option"
  nats_published :: "(nat \<times> nats_data) list"
  nats_called :: "(nat \<times> nats_data \<times> nat) list"
  smtp_trace :: "smtp_op list"
  delayed :: "job list"
  logged :: "(level \<times> string) list"
  http_posts :: "http_post list"
  notified :: "notification list"

definition logger :: "level \<Rightarrow> string \<Rightarrow> world \<Rightarrow> world" where
  "logger l msg w = w\<lparr>logged := logged w @ [(l, msg)]\<rparr>"

text \<open>\<open>Agent.objects.get(pk=pk)\<close>\<close>

definition get_agent :: "world \<Rightarrow> nat \<Rightarrow> error + agent" where
  "get_agent w pk =
     (case find (\<lambda>a. agent_pk a = pk) (agents w) of
        None \<Rightarrow> Inl DoesNotExist
      | Some a \<Rightarrow> Inr a)"

text \<open>
  Modelled from the spec: \<open>Agent.nats_cmd(data, wait=False)\<close> (missing
  \<open>agents/models.py\<close>): a fire-and-forget dispatch, which hands the command to the push
  transport and returns at once, with no acknowledgment.
\<close>

definition nats_cmd_nowait :: "agent \<Rightarrow> nats_data \<Rightarrow> world \<Rightarrow> world" where
  "nats_cmd_nowait a d w = w\<lparr>nats_published := nats_published w @ [(agent_pk a, d)]\<rparr>"

section \<open>Update orchestrator: \<open>agent_update\<close>\<close>

text \<open>\<open>agent.pendingactions.filter(action_type="agentupdate", status="pending")\<close>\<close>

definition pending_updates :: "world \<Rightarrow> nat \<Rightarrow> pending_action list" where
  "pending_updates w pk =
     filter (\<lambda>p. pa_agent p = pk \<and> action_type p = ''agentupdate'' \<and> pa_status p = ''pending'')
       (pendingactions w)"

text \<open>\<open>action.delete()\<close>\<close>

definition delete_pendingaction :: "pending_action \<Rightarrow> world \<Rightarrow> world" where
  "delete_pendingaction action w =
     w\<lparr>pendingactions := filter (\<lambda>p. pa_pk p \<noteq> pa_pk action) (pendingactions w)\<rparr>"

text \<open>
  Modelled from the spec: the default status of a new PendingAction (missing
  \<open>logs/models.py\<close>) is \<open>pending\<close>. With it, this is
  \<open>PendingAction.objects.create(agent=agent, action_type=..., details=...)\<close>.
\<close>

definition create_pendingaction ::
  "nat \<Rightarrow> string \<Rightarrow> (string \<times> string) list \<Rightarrow> world \<Rightarrow> world" where
  "create_pendingaction pk atype dets w =
     w\<lparr>pendingactions := pendingactions w @
          [\<lparr>pa_pk = next_pendingaction_pk w, pa_agent = pk, action_type = atype,
            pa_status = ''pending'', details = dets\<rparr>],
       next_pendingaction_pk := Suc (next_pendingaction_pk w)\<rparr>"

definition update_details :: "settings \<Rightarrow> agent \<Rightarrow> (string \<times> string) list" where
  "update_details S a =
     [(''url'', winagent_dl a), (''version'', LATEST_AGENT_VER S), (''inno'', win_inno_exe a)]"

definition agent_update :: "settings \<Rightarrow> world \<Rightarrow> nat \<Rightarrow> (error + string) \<times> world" where
  "agent_update S w pk =
     (case get_agent w pk of
        Inl e \<Rightarrow> (Inl e, w)
      | Inr a \<Rightarrow>
          if arch a = None then
            (Inr ''noarch'',
             logger WARNING (''Unable to determine arch on '' @ hostname a @ ''. Skipping.'') w)
          else if has_nats a then
            (case parse_le (version a) ''1.1.11'' of
               Inl e \<Rightarrow> (Inl e, w)
             | Inr True \<Rightarrow>
                 if pending_updates w (agent_pk a) \<noteq> [] then
                   (let action = last (pending_updates w (agent_pk a)) in
                    case map_of (details action) ''version'' of
                      None \<Rightarrow> (Inl KeyError, w)
                    | Some v \<Rightarrow>
                        (case parse_lt v (LATEST_AGENT_VER S) of
                           Inl e \<Rightarrow> (Inl e, w)
                         | Inr True \<Rightarrow>
                             (Inr ''created'',
                              create_pendingaction (agent_pk a) ''agentupdate''
                                (update_details S a) (delete_pendingaction action w))
                         | Inr False \<Rightarrow> (Inr ''pending'', w)))
                 else
                   (Inr ''created'',
                    create_pendingaction (agent_pk a) ''agentupdate'' (update_details S a) w)
             | Inr False \<Rightarrow>
                 (Inr ''created'',
                  nats_cmd_nowait a
                    \<lparr>func = ''agentupdate'', payload = update_details S a\<rparr> w))
          else (Inr ''not supported'', w))"

section \<open>Uninstall workflow: \<open>uninstall_agent_task\<close>\<close>

text \<open>
  What one \<open>requests.post\<close> to the legacy RPC endpoint does, as the task sees it: the
  \<open>try\<close> block raises (in the call, in \<open>r.json()\<close> or in the indexing of the reply), or it
  yields the value found at \<open>["return"][0][salt_id]\<close>.
\<close>

datatype post_outcome = Raises | Returns jv

definition salt_url :: "settings \<Rightarrow> string" where
  "salt_url S = ''http://'' @ SALT_HOST S @ '':8123/run''"

definition uninstall_request :: "settings \<Rightarrow> string \<Rightarrow> http_post" where
  "uninstall_request S salt_id =
     \<lparr>post_url = salt_url S,
      post_json =
        [(''client'', JStr ''local''),
         (''tgt'', JStr salt_id),
         (''fun'', JStr ''win_agent.uninstall_agent''),
         (''timeout'', JInt 8),
         (''username'', JStr (SALT_USERNAME S)),
         (''password'', JStr (SALT_PASSWORD S)),
         (''eauth'', JStr ''pam'')],
      post_timeout = 10\<rparr>"

definition key_delete_request :: "settings \<Rightarrow> string \<Rightarrow> http_post" where
  "key_delete_request S salt_id =
     \<lparr>post_url = salt_url S,
      post_json =
        [(''client'', JStr ''wheel''),
         (''fun'', JStr ''key.delete''),
         (''match'', JStr salt_id),
         (''username'', JStr (SALT_USERNAME S)),
         (''password'', JStr (SALT_PASSWORD S)),
         (''eauth'', JStr ''pam'')],
      post_timeout = 30\<rparr>"

definition post :: "http_post \<Rightarrow> world \<Rightarrow> world" where
  "post rq w = w\<lparr>http_posts := http_posts w @ [rq]\<rparr>"

text \<open>The body of \<open>try / except / else\<close>: the failure counter after one attempt.\<close>

definition count_attempt :: "post_outcome \<Rightarrow> nat \<Rightarrow> nat" where
  "count_attempt r attempts =
     (case r of
        Raises \<Rightarrow> attempts + 1
      | Returns ret \<Rightarrow> if ret \<noteq> JStr ''ok'' then attempts + 1 else 0)"

text \<open>
  The \<open>while 1\<close> loop. \<open>env i\<close> is the outcome of the \<open>i\<close>-th request of the run, \<open>i\<close> counts
  the requests made so far and \<open>attempts\<close> is the loop's counter. The result is the flag
  \<open>error\<close> with the world after the loop.
\<close>

function uninstall_loop ::
  "settings \<Rightarrow> (nat \<Rightarrow> post_outcome) \<Rightarrow> string \<Rightarrow> nat \<Rightarrow> nat \<Rightarrow> world \<Rightarrow> bool \<times> world" where
  "uninstall_loop S env salt_id i attempts w =
     (if 10 \<le> count_attempt (env i) attempts then
        (True, post (uninstall_request S salt_id) w)
      else if count_attempt (env i) attempts = 0 then
        (False, post (uninstall_request S salt_id) w)
      else
        uninstall_loop S env salt_id (Suc i) (count_attempt (env i) attempts)
          (post (uninstall_request S salt_id) w))"
  by pat_completeness auto
termination
  by (relation "measure (\<lambda>(S, env, salt_id, i, attempts, w). 10 - attempts)")
     (auto simp: count_attempt_def split: post_outcome.splits if_splits)

declare uninstall_loop.simps [simp del]

definition uninstall_agent_task ::
  "settings \<Rightarrow> (nat \<Rightarrow> post_outcome) \<Rightarrow> bool \<Rightarrow> string \<Rightarrow> bool \<Rightarrow> world \<Rightarrow> string \<times> world" where
  "uninstall_agent_task S env key_delete_raises salt_id nats w =
     (let (error, w1) =
            (if \<not> nats then uninstall_loop S env salt_id 0 0 w else (False, w));
          w2 = (if error then logger ERROR (salt_id @ '' uninstall failed'') w1
                else logger INFO (salt_id @ '' was successfully uninstalled'') w1);
          w3 = post (key_delete_request S salt_id) w2;
          w4 = (if key_delete_raises
                then logger ERROR (salt_id @ '' unable to remove salt-key'') w3
                else w3)
      in (''ok'', w4))"

section \<open>Outage tracker\<close>

text \<open>\<open>AgentOutage.objects.get(pk=pk)\<close>\<close>

definition get_outage :: "world \<Rightarrow> nat \<Rightarrow> error + agent_outage" where
  "get_outage w pk =
     (case find (\<lambda>outage. outage_pk outage = pk) (agentoutages w) of
        None \<Rightarrow> Inl DoesNotExist
      | Some outage \<Rightarrow> Inr outage)"

text \<open>
  \<open>outage.save(update_fields=[f])\<close>: the row of this key gets the field's new value, and
  no other column and no other row is written.
\<close>

definition save_outage_field ::
  "nat \<Rightarrow> (agent_outage \<Rightarrow> agent_outage) \<Rightarrow> world \<Rightarrow> world" where
  "save_outage_field pk upd w =
     w\<lparr>agentoutages :=
          map (\<lambda>outage. if outage_pk outage = pk then upd outage else outage) (agentoutages w)\<rparr>"

text \<open>
  Modelled from the spec: the notifier calls \<open>send_outage_email\<close>, \<open>send_recovery_email\<close>,
  \<open>send_outage_sms\<close> and \<open>send_recovery_sms\<close> (missing \<open>agents/models.py\<close>) delegate to an
  external mail or SMS gateway and write nothing to the registry. \<open>notifier_raises\<close> tells
  whether the call raises, and a call that returns is recorded in \<open>notified\<close>. The
  \<open>sleep\<close> before the call delays the job and touches nothing.
\<close>

definition agent_outage_email_task :: "bool \<Rightarrow> nat \<Rightarrow> world \<Rightarrow> (error + unit) \<times> world" where
  "agent_outage_email_task notifier_raises pk w =
     (case get_outage w pk of
        Inl e \<Rightarrow> (Inl e, w)
      | Inr outage \<Rightarrow>
          if notifier_raises then (Inl NotifierError, w)
          else
            (Inr (),
             save_outage_field (outage_pk outage) (\<lambda>r. r\<lparr>outage_email_sent := True\<rparr>)
               (w\<lparr>notified := notified w @ [Outage_email (outage_pk outage)]\<rparr>)))"

definition agent_recovery_email_task :: "bool \<Rightarrow> nat \<Rightarrow> world \<Rightarrow> (error + unit) \<times> world" where
  "agent_recovery_email_task notifier_raises pk w =
     (case get_outage w pk of
        Inl e \<Rightarrow> (Inl e, w)
      | Inr outage \<Rightarrow>
          if notifier_raises then (Inl NotifierError, w)
          else
            (Inr (),
             save_outage_field (outage_pk outage) (\<lambda>r. r\<lparr>recovery_email_sent := True\<rparr>)
               (w\<lparr>notified := notified w @ [Recovery_email (outage_pk outage)]\<rparr>)))"

definition agent_outage_sms_task :: "bool \<Rightarrow> nat \<Rightarrow> world \<Rightarrow> (error + unit) \<times> world" where
  "agent_outage_sms_task notifier_raises pk w =
     (case get_outage w pk of
        Inl e \<Rightarrow> (Inl e, w)
      | Inr outage \<Rightarrow>
          if notifier_raises then (Inl NotifierError, w)
          else
            (Inr (),
             save_outage_field (outage_pk outage) (\<lambda>r. r\<lparr>outage_sms_sent := True\<rparr>)
               (w\<lparr>notified := notified w @ [Outage_sms (outage_pk outage)]\<rparr>)))"

definition agent_recovery_sms_task :: "bool \<Rightarrow> nat \<Rightarrow> world \<Rightarrow> (error + unit) \<times> world" where
  "agent_recovery_sms_task notifier_raises pk w =
     (case get_outage w pk of
        Inl e \<Rightarrow> (Inl e, w)
      | Inr outage \<Rightarrow>
          if notifier_raises then (Inl NotifierError, w)
          else
            (Inr (),
             save_outage_field (outage_pk outage) (\<lambda>r. r\<lparr>recovery_sms_sent := True\<rparr>)
               (w\<lparr>notified := notified w @ [Recovery_sms (outage_pk outage)]\<rparr>)))"

text \<open>\<open>AgentOutage.objects.filter(agent=agent)\<close>\<close>

definition outages_of :: "world \<Rightarrow> nat \<Rightarrow> agent_outage list" where
  "outages_of w pk = filter (\<lambda>outage. outage_agent outage = pk) (agentoutages w)"

text \<open>
  Modelled from the spec: the defaults of a new AgentOutage (missing \<open>agents/models.py\<close>)
  are no resolution and no delivery confirmation. With them, this is the row of
  \<open>outage = AgentOutage(agent=agent); outage.save()\<close>.
\<close>

definition new_outage :: "world \<Rightarrow> nat \<Rightarrow> agent_outage" where
  "new_outage w pk =
     \<lparr>outage_pk = next_agentoutage_pk w, outage_agent = pk, recovery_time = None,
      outage_email_sent = False, outage_sms_sent = False,
      recovery_email_sent = False, recovery_sms_sent = False\<rparr>"

definition delay :: "job \<Rightarrow> world \<Rightarrow> world" where
  "delay j w = w\<lparr>delayed := delayed w @ [j]\<rparr>"

text \<open>
  The body of the \<open>for agent in agents\<close> loop of \<open>agent_outages_task\<close>. A run of the sweep
  derives the status of each agent once; \<open>clock pk\<close> is the clock at that read for the
  agent of key \<open>pk\<close>.
\<close>

definition outage_step :: "(nat \<Rightarrow> nat) \<Rightarrow> world \<Rightarrow> agent \<Rightarrow> world" where
  "outage_step clock w a =
     (if overdue_email_alert a \<or> overdue_text_alert a then
        if status (clock (agent_pk a)) a = ''overdue'' then
          if outages_of w (agent_pk a) \<noteq> [] \<and> is_active (last (outages_of w (agent_pk a)))
          then w
          else
            (let outage = new_outage w (agent_pk a);
                 w1 = w\<lparr>agentoutages := agentoutages w @ [outage],
                        next_agentoutage_pk := Suc (next_agentoutage_pk w)\<rparr>;
                 w2 = (if overdue_email_alert a \<and> \<not> maintenance_mode a
                       then delay (Agent_outage_email_task (outage_pk outage)) w1 else w1);
                 w3 = (if overdue_text_alert a \<and> \<not> maintenance_mode a
                       then delay (Agent_outage_sms_task (outage_pk outage)) w2 else w2)
             in w3)
        else w
      else w)"

definition agent_outages_task :: "(nat \<Rightarrow> nat) \<Rightarrow> world \<Rightarrow> world" where
  "agent_outages_task clock w = foldl (outage_step clock) w (agents w)"

section \<open>Script-run notifier: \<open>run_script_email_results_task\<close>\<close>

text \<open>
  Modelled from the spec: \<open>Agent.nats_cmd(data, timeout=t)\<close> (missing
  \<open>agents/models.py\<close>): a bounded call, which blocks up to the timeout and returns the
  correlated reply or the string \<open>timeout\<close>; it never raises on a missed deadline. The
  reply is the environment's. A reply that is not a string is the script's result, with
  the keys \<open>retcode\<close>, \<open>execution_time\<close>, \<open>stdout\<close> and \<open>stderr\<close>; the execution time is
  kept as the text that \<open>"{:.4f}".format\<close> gives for it.
\<close>

record script_result =
  retcode :: int
  execution_time_4f :: string
  stdout :: string
  stderr :: string

datatype nats_reply = Reply_str string | Reply_dict script_result

definition nats_cmd_wait :: "agent \<Rightarrow> nats_data \<Rightarrow> nat \<Rightarrow> world \<Rightarrow> world" where
  "nats_cmd_wait a d t w = w\<lparr>nats_called := nats_called w @ [(agent_pk a, d, t)]\<rparr>"

text \<open>
  What the SMTP session does: it goes through, or its operation of index \<open>n\<close> raises the
  exception whose text is given; \<open>smtp_trace\<close> keeps the operations attempted.
\<close>

datatype smtp_outcome = Smtp_ok | Smtp_raises nat string

text \<open>\<open>Script.objects.get(pk=pk)\<close>\<close>

definition get_script :: "world \<Rightarrow> nat \<Rightarrow> error + script" where
  "get_script w pk =
     (case find (\<lambda>s. script_pk s = pk) (scripts w) of
        None \<Rightarrow> Inl DoesNotExist
      | Some s \<Rightarrow> Inr s)"

fun str_nat :: "nat \<Rightarrow> string" where
  "str_nat n =
     (if n < 10 then [''0123456789'' ! n]
      else str_nat (n div 10) @ [''0123456789'' ! (n mod 10)])"

definition str_int :: "int \<Rightarrow> string" where
  "str_int i = (if i < 0 then CHR ''-'' # str_nat (nat (- i)) else str_nat (nat i))"

fun join :: "string \<Rightarrow> string list \<Rightarrow> string" where
  "join sep [] = []"
| "join sep [x] = x"
| "join sep (x # y # ys) = x @ sep @ join sep (y # ys)"

definition report_subject :: "agent \<Rightarrow> script \<Rightarrow> string" where
  "report_subject a s = hostname a @ '' '' @ script_name s @ '' Results''"

definition report_body :: "string \<Rightarrow> script_result \<Rightarrow> string" where
  "report_body subject r =
     subject @ [CHR 0x0A] @ ''Return code: '' @ str_int (retcode r)
       @ [CHR 0x0A] @ ''Execution time: '' @ execution_time_4f r @ '' seconds''
       @ [CHR 0x0A] @ ''Stdout: '' @ stdout r
       @ [CHR 0x0A] @ ''Stderr: '' @ stderr r"

definition smtp_session :: "core_settings \<Rightarrow> email_message \<Rightarrow> smtp_op list" where
  "smtp_session CORE msg =
     (if smtp_requires_auth CORE then
        [Connect (smtp_host CORE) (smtp_port CORE) 20, Ehlo, Starttls,
         Login (smtp_host_user CORE) (smtp_host_password CORE), Send_message msg, Quit]
      else
        [Connect (smtp_host CORE) (smtp_port CORE) 20, Send_message msg, Quit])"

definition run_script_email_results_task ::
  "nats_reply \<Rightarrow> smtp_outcome \<Rightarrow> nat \<Rightarrow> nat \<Rightarrow> nat \<Rightarrow> nats_data \<Rightarrow> string list \<Rightarrow> world
     \<Rightarrow> (error + unit) \<times> world" where
  "run_script_email_results_task r smtp agentpk scriptpk nats_timeout data emails w =
     (case get_agent w agentpk of
        Inl e \<Rightarrow> (Inl e, w)
      | Inr a \<Rightarrow>
     (case get_script w scriptpk of
        Inl e \<Rightarrow> (Inl e, w)
      | Inr s \<Rightarrow>
     (let w1 = nats_cmd_wait a (data\<lparr>func := ''runscriptfull''\<rparr>) nats_timeout w in
      if r = Reply_str ''timeout'' then
        (Inr (), logger ERROR (hostname a @ '' timed out running script.'') w1)
      else
        (case r of
           Reply_str _ \<Rightarrow> (Inl TypeError, w1)
         | Reply_dict res \<Rightarrow>
        (case core w1 of
           None \<Rightarrow> (Inl AttributeError, w1)
         | Some CORE \<Rightarrow>
        (let subject = report_subject a s;
             body = report_body subject res;
             msg = \<lparr>msg_subject = subject,
                    msg_from = smtp_from_email CORE,
                    msg_to = (if emails \<noteq> [] then join '', '' emails
                              else join '', '' (email_alert_recipients CORE)),
                    msg_content = body\<rparr>
         in case smtp of
              Smtp_ok \<Rightarrow>
                (Inr (), w1\<lparr>smtp_trace := smtp_trace w1 @ smtp_session CORE msg\<rparr>)
            | Smtp_raises n e \<Rightarrow>
                (Inr (),
                 logger ERROR e
                   (w1\<lparr>smtp_trace := smtp_trace w1 @ take (Suc n) (smtp_session CORE msg)\<rparr>))))))))"

section \<open>Concrete registries\<close>

definition ex_settings :: settings where
  "ex_settings =
     \<lparr>LATEST_AGENT_VER = ''1.2.0'', SALT_HOST = ''127.0.0.1'',
      SALT_USERNAME = ''saltapi'', SALT_PASSWORD = ''secret''\<rparr>"

definition ex_legacy :: agent where
  "ex_legacy =
     \<lparr>agent_pk = 1, hostname = ''WS-01'', version = ''1.1.10'', arch = Some ''64'',
      has_nats = True, last_seen = Some 100, overdue_time = 30, offline_time = 6,
      overdue_email_alert = True,
      overdue_text_alert = True, maintenance_mode = False,
      winagent_dl = ''https://dl.example/winagent-v1.2.0.exe'',
      win_inno_exe = ''winagent-v1.2.0.exe''\<rparr>"

definition ex_modern :: agent where
  "ex_modern = ex_legacy\<lparr>agent_pk := 2, hostname := ''WS-02'', version := ''1.1.12''\<rparr>"

definition ex_noarch :: agent where
  "ex_noarch = ex_legacy\<lparr>agent_pk := 3, hostname := ''WS-03'', arch := None\<rparr>"

definition ex_action :: "nat \<Rightarrow> nat \<Rightarrow> string \<Rightarrow> pending_action" where
  "ex_action k agentpk v =
     \<lparr>pa_pk = k, pa_agent = agentpk, action_type = ''agentupdate'', pa_status = ''pending'',
      details = [(''url'', ''https://dl.example/old.exe''), (''version'', v),
                 (''inno'', ''old.exe'')]\<rparr>"

definition ex_core :: core_settings where
  "ex_core =
     \<lparr>agent_auto_update = True, smtp_from_email = ''rmm@example.com'',
      email_alert_recipients = [''ops@example.com''], smtp_host = ''smtp.example.com'',
      smtp_port = 587, smtp_requires_auth = True, smtp_host_user = ''rmm'',
      smtp_host_password = ''secret''\<rparr>"

definition ex_world :: world where
  "ex_world =
     \<lparr>agents = [ex_legacy, ex_modern, ex_noarch],
      pendingactions = [], next_pendingaction_pk = 1,
      agentoutages = [], next_agentoutage_pk = 1,
      scripts = [\<lparr>script_pk = 1, script_name = ''cleanup''\<rparr>],
      core = Some ex_core,
      nats_published = [], nats_called = [], smtp_trace = [],
      delayed = [], logged = [], http_posts = [], notified = []\<rparr>"

definition ex_world_lower :: world where
  "ex_world_lower =
     ex_world\<lparr>pendingactions := [ex_action 1 1 ''1.1.12''], next_pendingaction_pk := 2\<rparr>"

definition ex_world_pending :: world where
  "ex_world_pending =
     ex_world\<lparr>pendingactions := [ex_action 1 1 ''1.2.0'', ex_action 2 3 ''1.2.0''],
              next_pendingaction_pk := 3\<rparr>"

definition ex_world_two :: world where
  "ex_world_two =
     ex_world\<lparr>pendingactions := [ex_action 1 1 ''1.3.0'', ex_action 2 1 ''1.1.12''],
              next_pendingaction_pk := 3\<rparr>"

definition ex_env_ninth :: "nat \<Rightarrow> post_outcome" where
  "ex_env_ninth i = (if i = 9 then Returns (JStr ''ok'')
      else if even i then Raises else Returns (JStr ''error''))"

definition ex_env_down :: "nat \<Rightarrow> post_outcome" where
  "ex_env_down i = (if i < 10 then Raises else Returns (JStr ''ok''))"

definition ex_world_outages :: world where
  "ex_world_outages =
     ex_world\<lparr>agents := [ex_legacy],
              agentoutages :=
                [\<lparr>outage_pk = 1, outage_agent = 1, recovery_time = None,
                  outage_email_sent = True, outage_sms_sent = False,
                  recovery_email_sent = False, recovery_sms_sent = False\<rparr>,
                 \<lparr>outage_pk = 2, outage_agent = 1, recovery_time = Some 5,
                  outage_email_sent = True, outage_sms_sent = True,
                  recovery_email_sent = True, recovery_sms_sent = False\<rparr>],
              next_agentoutage_pk := 3\<rparr>"

section \<open>Notions used in the statements and proofs\<close>

text \<open>The world after \<open>n\<close> more requests \<open>rq\<close>.\<close>

definition posts :: "nat \<Rightarrow> http_post \<Rightarrow> world \<Rightarrow> world" where
  "posts n rq w = w\<lparr>http_posts := http_posts w @ replicate n rq\<rparr>"

text \<open>
  The guard of the sweep's loop body, in two parts: the agent is to be tracked (an alert
  flag is set and its status at the run's read is \<open>overdue\<close>), and the latest outage of
  an agent exists and is active.
\<close>

definition wants_outage :: "(nat \<Rightarrow> nat) \<Rightarrow> agent \<Rightarrow> bool" where
  "wants_outage clock a =
     ((overdue_email_alert a \<or> overdue_text_alert a)
      \<and> status (clock (agent_pk a)) a = ''overdue'')"

definition last_active :: "world \<Rightarrow> nat \<Rightarrow> bool" where
  "last_active w pk = (outages_of w pk \<noteq> [] \<and> is_active (last (outages_of w pk)))"

section \<open>Auxiliary facts\<close>

lemmas ex_defs = ex_world_lower_def ex_world_pending_def ex_world_def ex_legacy_def
  ex_modern_def ex_noarch_def ex_action_def ex_settings_def ex_world_outages_def
  ex_world_two_def

lemmas ver_defs = parse_le_def parse_lt_def pyver_parse_def parse_int_def is_digit_def
  digit_val_def pyver_lt_def pyver_le_def ver_key_def

lemma get_agent_pk: "get_agent w pk = Inr a \<Longrightarrow> agent_pk a = pk"
  by (auto simp: get_agent_def find_Some_iff split: option.splits)

lemma parse_le_1_1_10: "parse_le ''1.1.10'' ''1.1.11'' = Inr True"
  by (simp add: parse_le_def pyver_parse_def parse_int_def is_digit_def digit_val_def
      pyver_le_def ver_key_def)

lemma parse_le_ge_not_lt: "parse_le b a = Inr True \<Longrightarrow> parse_lt a b = Inr False"
  by (auto simp: parse_le_def parse_lt_def pyver_le_def pyver_lt_def split: option.splits)

lemma pending_updates_create:
  "pending_updates (create_pendingaction pk ''agentupdate'' d w) pk =
     pending_updates w pk @
       [\<lparr>pa_pk = next_pendingaction_pk w, pa_agent = pk, action_type = ''agentupdate'',
         pa_status = ''pending'', details = d\<rparr>]"
  by (simp add: pending_updates_def create_pendingaction_def)

lemma pending_updates_delete:
  "pending_updates (delete_pendingaction old w) pk =
     filter (\<lambda>p. pa_pk p \<noteq> pa_pk old) (pending_updates w pk)"
  by (simp add: pending_updates_def delete_pendingaction_def conj_commute)

lemma next_pk_delete:
  "next_pendingaction_pk (delete_pendingaction old w) = next_pendingaction_pk w"
  by (simp add: delete_pendingaction_def)

section \<open>The update decision\<close>

text \<open>
  C1 (as amended). An agent of version 1.1.10 that is push-capable, has a known
  architecture and has no PendingAction row, with 1.2.0 as the target version (the
  configured \<open>LATEST_AGENT_VER\<close>, the only target \<open>agent_update\<close> has): the call returns
  \<open>created\<close>, appends one PendingAction of type \<open>agentupdate\<close> and status \<open>pending\<close> whose
  details record version 1.2.0, and this row is then the agent's only PendingAction.
\<close>

theorem agent_update_scenario_created:
  assumes "get_agent w pk = Inr a" and "version a = ''1.1.10''" and "has_nats a"
    and "arch a \<noteq> None"
    and "filter (\<lambda>p. pa_agent p = pk) (pendingactions w) = []"
    and "LATEST_AGENT_VER S = ''1.2.0''"
  shows "agent_update S w pk =
           (Inr ''created'',
            w\<lparr>pendingactions := pendingactions w @
                 [\<lparr>pa_pk = next_pendingaction_pk w, pa_agent = pk,
                   action_type = ''agentupdate'', pa_status = ''pending'',
                   details = [(''url'', winagent_dl a), (''version'', ''1.2.0''),
                              (''inno'', win_inno_exe a)]\<rparr>],
              next_pendingaction_pk := Suc (next_pendingaction_pk w)\<rparr>)
         \<and> filter (\<lambda>p. pa_agent p = pk) (pendingactions (snd (agent_update S w pk))) =
             [\<lparr>pa_pk = next_pendingaction_pk w, pa_agent = pk,
               action_type = ''agentupdate'', pa_status = ''pending'',
               details = [(''url'', winagent_dl a), (''version'', ''1.2.0''),
                          (''inno'', win_inno_exe a)]\<rparr>]"
proof -
  have pk: "agent_pk a = pk" using assms(1) by (rule get_agent_pk)
  have none: "pending_updates w pk = []"
    using assms(5) by (auto simp: pending_updates_def filter_empty_conv)
  have run: "agent_update S w pk =
      (Inr ''created'', create_pendingaction pk ''agentupdate'' (update_details S a) w)"
    using assms(1-4) pk none by (simp add: agent_update_def parse_le_1_1_10)
  show ?thesis
    using assms(5,6) by (simp add: run create_pendingaction_def update_details_def)
qed

theorem agent_update_scenario_created_witness:
  "agent_update ex_settings ex_world 1 =
     (Inr ''created'',
      ex_world\<lparr>pendingactions :=
                 [\<lparr>pa_pk = 1, pa_agent = 1, action_type = ''agentupdate'',
                   pa_status = ''pending'',
                   details = [(''url'', ''https://dl.example/winagent-v1.2.0.exe''),
                              (''version'', ''1.2.0''), (''inno'', ''winagent-v1.2.0.exe'')]\<rparr>],
               next_pendingaction_pk := 2\<rparr>)"
  using agent_update_scenario_created [of ex_world 1 ex_legacy ex_settings]
  by (simp add: get_agent_def ex_world_def ex_legacy_def ex_settings_def ex_modern_def ex_noarch_def)

text \<open>
  C1 as stated does not ask for a known architecture: the agent \<open>ex_noarch\<close> has version
  1.1.10, is push-capable and has no pending action, and the call returns \<open>noarch\<close> and
  creates nothing.
\<close>

theorem agent_update_scenario_noarch_counterexample:
  "get_agent ex_world 3 = Inr ex_noarch \<and> version ex_noarch = ''1.1.10'' \<and> has_nats ex_noarch
   \<and> pendingactions ex_world = [] \<and> LATEST_AGENT_VER ex_settings = ''1.2.0''
   \<and> fst (agent_update ex_settings ex_world 3) = Inr ''noarch''
   \<and> pendingactions (snd (agent_update ex_settings ex_world 3)) = []"
  by (simp add: agent_update_def get_agent_def ex_world_def ex_legacy_def ex_settings_def
      ex_modern_def ex_noarch_def logger_def)

text \<open>
  C2 (as amended). The invariant "at most one pending agent-update action per agent" is
  kept by \<open>agent_update\<close> for a push-capable legacy agent (version \<open>\<le> 1.1.11\<close>) with
  known architecture: if the agent has at most one such action before a call that
  completes, it has at most one after it. When the one it has records a lower target
  version, the call returns \<open>created\<close>, that row is deleted and the new one appended, and
  the new row is the only pending agent-update action that remains.
\<close>

theorem agent_update_at_most_one_pending:
  assumes "get_agent w pk = Inr a" and "arch a \<noteq> None" and "has_nats a"
    and "parse_le (version a) ''1.1.11'' = Inr True"
    and "length (pending_updates w pk) \<le> 1"
    and "agent_update S w pk = (Inr r, w')"
  shows "length (pending_updates w' pk) \<le> 1 \<and>
         (\<forall>old v. pending_updates w pk = [old] \<and> map_of (details old) ''version'' = Some v
                   \<and> parse_lt v (LATEST_AGENT_VER S) = Inr True \<longrightarrow>
            r = ''created''
            \<and> pendingactions w' =
                filter (\<lambda>p. pa_pk p \<noteq> pa_pk old) (pendingactions w) @
                  [\<lparr>pa_pk = next_pendingaction_pk w, pa_agent = pk,
                    action_type = ''agentupdate'', pa_status = ''pending'',
                    details = update_details S a\<rparr>]
            \<and> pending_updates w' pk =
                  [\<lparr>pa_pk = next_pendingaction_pk w, pa_agent = pk,
                    action_type = ''agentupdate'', pa_status = ''pending'',
                    details = update_details S a\<rparr>])"
proof -
  have pk: "agent_pk a = pk" using assms(1) by (rule get_agent_pk)
  let ?new = "\<lparr>pa_pk = next_pendingaction_pk w, pa_agent = pk,
                action_type = ''agentupdate'', pa_status = ''pending'',
                details = update_details S a\<rparr>"
  consider (none) "pending_updates w pk = []"
    | (one) old where "pending_updates w pk = [old]"
    using assms(5) by (cases "pending_updates w pk") (auto simp: length_Suc_conv)
  then show ?thesis
  proof cases
    case none
    have "agent_update S w pk =
        (Inr ''created'', create_pendingaction pk ''agentupdate'' (update_details S a) w)"
      using assms(1-4) pk none by (simp add: agent_update_def)
    with assms(6) have w': "w' = create_pendingaction pk ''agentupdate'' (update_details S a) w"
      by simp
    show ?thesis
      using none by (simp add: w' pending_updates_create)
  next
    case one
    show ?thesis
    proof (cases "map_of (details old) ''version''")
      case None
      have "agent_update S w pk = (Inl KeyError, w)"
        using assms(1-4) pk one None by (simp add: agent_update_def)
      with assms(6) show ?thesis by simp
    next
      case (Some v)
      show ?thesis
      proof (cases "parse_lt v (LATEST_AGENT_VER S)")
        case (Inl e)
        have "agent_update S w pk = (Inl e, w)"
          using assms(1-4) pk one Some Inl by (simp add: agent_update_def)
        with assms(6) show ?thesis by simp
      next
        case (Inr older)
        show ?thesis
        proof (cases older)
          case True
          have "agent_update S w pk =
              (Inr ''created'',
               create_pendingaction pk ''agentupdate'' (update_details S a)
                 (delete_pendingaction old w))"
            using assms(1-4) pk one Some Inr True by (simp add: agent_update_def)
          with assms(6) have r: "r = ''created''"
            and w': "w' = create_pendingaction pk ''agentupdate'' (update_details S a)
                            (delete_pendingaction old w)"
            by simp_all
          have pu: "pending_updates w' pk = [?new]"
            by (simp add: w' pending_updates_create pending_updates_delete one next_pk_delete)
          have pa: "pendingactions w' =
              filter (\<lambda>p. pa_pk p \<noteq> pa_pk old) (pendingactions w) @ [?new]"
            by (simp add: w' create_pendingaction_def delete_pendingaction_def)
          show ?thesis
            using r pu pa one by simp
        next
          case False
          have "agent_update S w pk = (Inr ''pending'', w)"
            using assms(1-4) pk one Some Inr False by (simp add: agent_update_def)
          with assms(6) have "w' = w" by simp
          then show ?thesis
            using one Some Inr False by simp
        qed
      qed
    qed
  qed
qed

theorem agent_update_at_most_one_pending_witness:
  "pending_updates ex_world_lower 1 = [ex_action 1 1 ''1.1.12'']
   \<and> agent_update ex_settings ex_world_lower 1 =
       (Inr ''created'',
        ex_world\<lparr>pendingactions :=
                   [\<lparr>pa_pk = 2, pa_agent = 1, action_type = ''agentupdate'',
                     pa_status = ''pending'', details = update_details ex_settings ex_legacy\<rparr>],
                 next_pendingaction_pk := 3\<rparr>)
   \<and> length (pending_updates (snd (agent_update ex_settings ex_world_lower 1)) 1) \<le> 1
   \<and> pending_updates (snd (agent_update ex_settings ex_world_lower 1)) 1 =
       [\<lparr>pa_pk = 2, pa_agent = 1, action_type = ''agentupdate'',
         pa_status = ''pending'', details = update_details ex_settings ex_legacy\<rparr>]"
  using agent_update_at_most_one_pending
    [where w = ex_world_lower and pk = 1 and a = ex_legacy and S = ex_settings
       and r = "''created''"
       and w' = "ex_world\<lparr>pendingactions :=
                   [\<lparr>pa_pk = 2, pa_agent = 1, action_type = ''agentupdate'',
                     pa_status = ''pending'', details = update_details ex_settings ex_legacy\<rparr>],
                 next_pendingaction_pk := 3\<rparr>"]
  by (simp add: agent_update_def get_agent_def ex_defs ver_defs pending_updates_def
        create_pendingaction_def delete_pendingaction_def update_details_def)

text \<open>
  C2 as stated speaks of every registry. The call deletes the latest pending action only:
  in \<open>ex_world_two\<close> the agent has two pending agent-update actions, the latest with a
  lower target version, and after the call it still has two.
\<close>

theorem agent_update_two_pending_counterexample:
  "get_agent ex_world_two 1 = Inr ex_legacy \<and> has_nats ex_legacy \<and> arch ex_legacy = Some ''64''
   \<and> parse_le (version ex_legacy) ''1.1.11'' = Inr True
   \<and> agent_update ex_settings ex_world_two 1 =
       (Inr ''created'',
        ex_world\<lparr>pendingactions :=
                   [ex_action 1 1 ''1.3.0'',
                    \<lparr>pa_pk = 3, pa_agent = 1, action_type = ''agentupdate'',
                     pa_status = ''pending'', details = update_details ex_settings ex_legacy\<rparr>],
                 next_pendingaction_pk := 4\<rparr>)
   \<and> length (pending_updates (snd (agent_update ex_settings ex_world_two 1)) 1) = 2"
  by (simp add: agent_update_def get_agent_def ex_defs ver_defs
      pending_updates_def create_pendingaction_def delete_pendingaction_def update_details_def)

text \<open>
  C3 (as amended). A push-capable legacy agent with known architecture whose latest
  pending agent-update action records a target version greater than or equal to the
  target version: the call returns \<open>pending\<close> and leaves the whole world as it was, so
  no PendingAction is created or deleted and nothing is dispatched.
\<close>

theorem agent_update_pending_no_write:
  assumes "get_agent w pk = Inr a" and "arch a \<noteq> None" and "has_nats a"
    and "parse_le (version a) ''1.1.11'' = Inr True"
    and "pending_updates w pk \<noteq> []"
    and "map_of (details (last (pending_updates w pk))) ''version'' = Some v"
    and "parse_le (LATEST_AGENT_VER S) v = Inr True"
  shows "agent_update S w pk = (Inr ''pending'', w)"
proof -
  have pk: "agent_pk a = pk" using assms(1) by (rule get_agent_pk)
  have "parse_lt v (LATEST_AGENT_VER S) = Inr False"
    using assms(7) by (rule parse_le_ge_not_lt)
  then show ?thesis
    using assms(1-6) pk by (simp add: agent_update_def)
qed

theorem agent_update_pending_no_write_witness:
  "pending_updates ex_world_pending 1 = [ex_action 1 1 ''1.2.0'']
   \<and> agent_update ex_settings ex_world_pending 1 = (Inr ''pending'', ex_world_pending)"
  using agent_update_pending_no_write
    [where w = ex_world_pending and pk = 1 and a = ex_legacy and S = ex_settings
       and v = "''1.2.0''"]
  by (simp add: get_agent_def ex_defs ver_defs pending_updates_def)

text \<open>
  C3 as stated does not ask for a known architecture, and speaks of any pending action.
  The agent \<open>ex_noarch\<close> is push-capable and legacy and has a pending agent-update action
  for the target version itself, and the call returns \<open>noarch\<close>, not \<open>pending\<close>. In
  \<open>ex_world_two\<close> the agent has a pending action for version 1.3.0, above the target,
  but its latest one is for 1.1.12: the call returns \<open>created\<close> and writes.
\<close>

theorem agent_update_pending_counterexample:
  "get_agent ex_world_pending 3 = Inr ex_noarch \<and> has_nats ex_noarch
   \<and> parse_le (version ex_noarch) ''1.1.11'' = Inr True
   \<and> pending_updates ex_world_pending 3 = [ex_action 2 3 ''1.2.0'']
   \<and> parse_le (LATEST_AGENT_VER ex_settings) ''1.2.0'' = Inr True
   \<and> fst (agent_update ex_settings ex_world_pending 3) = Inr ''noarch''
   \<and> get_agent ex_world_two 1 = Inr ex_legacy \<and> has_nats ex_legacy
   \<and> arch ex_legacy = Some ''64''
   \<and> parse_le (version ex_legacy) ''1.1.11'' = Inr True
   \<and> pending_updates ex_world_two 1 = [ex_action 1 1 ''1.3.0'', ex_action 2 1 ''1.1.12'']
   \<and> parse_le (LATEST_AGENT_VER ex_settings) ''1.3.0'' = Inr True
   \<and> fst (agent_update ex_settings ex_world_two 1) = Inr ''created''
   \<and> pendingactions (snd (agent_update ex_settings ex_world_two 1)) \<noteq> pendingactions ex_world_two"
  by (simp add: agent_update_def get_agent_def ex_defs ver_defs
      pending_updates_def logger_def create_pendingaction_def delete_pendingaction_def)

text \<open>
  C4. A push-capable modern agent (version \<open>> 1.1.11\<close>) with known architecture: the call
  returns \<open>created\<close>, and the world changes by one fire-and-forget \<open>agentupdate\<close> command
  to this agent, carrying url, version and installer reference; the PendingAction table
  is as before.
\<close>

theorem agent_update_modern_dispatch:
  assumes "get_agent w pk = Inr a" and "arch a \<noteq> None" and "has_nats a"
    and "parse_le (version a) ''1.1.11'' = Inr False"
  shows "agent_update S w pk =
           (Inr ''created'',
            w\<lparr>nats_published := nats_published w @
                 [(pk, \<lparr>func = ''agentupdate'',
                        payload = [(''url'', winagent_dl a), (''version'', LATEST_AGENT_VER S),
                                   (''inno'', win_inno_exe a)]\<rparr>)]\<rparr>)
         \<and> pendingactions (snd (agent_update S w pk)) = pendingactions w
         \<and> next_pendingaction_pk (snd (agent_update S w pk)) = next_pendingaction_pk w"
proof -
  have pk: "agent_pk a = pk" using assms(1) by (rule get_agent_pk)
  have run: "agent_update S w pk =
      (Inr ''created'',
       nats_cmd_nowait a \<lparr>func = ''agentupdate'', payload = update_details S a\<rparr> w)"
    using assms by (simp add: agent_update_def)
  show ?thesis
    by (simp add: run nats_cmd_nowait_def update_details_def pk)
qed

theorem agent_update_modern_dispatch_witness:
  "agent_update ex_settings ex_world 2 =
     (Inr ''created'',
      ex_world\<lparr>nats_published :=
                 [(2, \<lparr>func = ''agentupdate'',
                       payload = [(''url'', ''https://dl.example/winagent-v1.2.0.exe''),
                                  (''version'', ''1.2.0''),
                                  (''inno'', ''winagent-v1.2.0.exe'')]\<rparr>)]\<rparr>)
   \<and> pendingactions (snd (agent_update ex_settings ex_world 2)) = []"
  using agent_update_modern_dispatch [where w = ex_world and pk = 2 and a = ex_modern
      and S = ex_settings]
  by (simp add: get_agent_def ex_defs ver_defs)

section \<open>The uninstall workflow\<close>

lemma count_attempt_fail: "r \<noteq> Returns (JStr ''ok'') \<Longrightarrow> count_attempt r n = Suc n"
  by (cases r) (auto simp: count_attempt_def)

lemma count_attempt_ok: "count_attempt (Returns (JStr ''ok'')) n = 0"
  by (simp add: count_attempt_def)

lemma posts_0: "posts 0 rq w = w"
  by (simp add: posts_def)

lemma posts_Suc: "posts n rq (post rq w) = posts (Suc n) rq w"
  by (simp add: posts_def post_def replicate_app_Cons_same)

lemma post_posts: "post rq (posts n rq w) = posts (Suc n) rq w"
  by (simp add: posts_def post_def replicate_append_same)

lemma uninstall_loop_failures:
  "\<forall>j<n. env (i + j) \<noteq> Returns (JStr ''ok'') \<Longrightarrow> a + n < 10 \<Longrightarrow>
   uninstall_loop S env sid i a w =
     uninstall_loop S env sid (i + n) (a + n) (posts n (uninstall_request S sid) w)"
proof (induction n arbitrary: i a w)
  case 0
  then show ?case by (simp add: posts_0)
next
  case (Suc n)
  have f: "env i \<noteq> Returns (JStr ''ok'')" using Suc.prems(1) by force
  have rest: "\<forall>j<n. env (Suc i + j) \<noteq> Returns (JStr ''ok'')"
    using Suc.prems(1) by force
  have "uninstall_loop S env sid i a w =
      uninstall_loop S env sid (Suc i) (Suc a) (post (uninstall_request S sid) w)"
    using Suc.prems(2) by (subst uninstall_loop.simps) (simp add: count_attempt_fail [OF f])
  also have "\<dots> = uninstall_loop S env sid (Suc i + n) (Suc a + n)
      (posts n (uninstall_request S sid) (post (uninstall_request S sid) w))"
    using rest Suc.prems(2) by (intro Suc.IH) simp_all
  finally show ?case by (simp add: posts_Suc)
qed

lemma uninstall_loop_success:
  assumes "k < 10" and "env k = Returns (JStr ''ok'')"
    and "\<forall>j<k. env j \<noteq> Returns (JStr ''ok'')"
  shows "uninstall_loop S env sid 0 0 w = (False, posts (Suc k) (uninstall_request S sid) w)"
proof -
  have "uninstall_loop S env sid 0 0 w =
      uninstall_loop S env sid k k (posts k (uninstall_request S sid) w)"
    using uninstall_loop_failures [of k env 0 0 S sid w] assms by simp
  also have "\<dots> = (False, post (uninstall_request S sid) (posts k (uninstall_request S sid) w))"
    by (subst uninstall_loop.simps) (simp add: assms(2) count_attempt_ok)
  finally show ?thesis by (simp add: post_posts)
qed

lemma uninstall_loop_exhausted:
  assumes "\<forall>j<10. env j \<noteq> Returns (JStr ''ok'')"
  shows "uninstall_loop S env sid 0 0 w = (True, posts 10 (uninstall_request S sid) w)"
proof -
  have f: "env 9 \<noteq> Returns (JStr ''ok'')" using assms by simp
  have "uninstall_loop S env sid 0 0 w =
      uninstall_loop S env sid 9 9 (posts 9 (uninstall_request S sid) w)"
    using uninstall_loop_failures [of 9 env 0 0 S sid w] assms by simp
  also have "\<dots> = (True, post (uninstall_request S sid) (posts 9 (uninstall_request S sid) w))"
    by (subst uninstall_loop.simps) (simp add: count_attempt_fail [OF f])
  finally show ?thesis by (simp add: post_posts)
qed

text \<open>
  C5. The uninstall workflow for an agent that is not push-capable, for every sequence
  \<open>env\<close> of per-attempt outcomes, where an attempt fails when the request raises or when
  the per-agent result is not \<open>ok\<close>. If the first success is attempt \<open>k + 1\<close> with
  \<open>k < 10\<close>, the loop leaves after exactly \<open>k + 1\<close> requests with \<open>error = False\<close>, the
  task logs the success and no uninstall failure. If the first 10 attempts all fail, the
  loop leaves after 10 requests with \<open>error = True\<close> and the task logs the failure. In
  both cases the key-delete request is made after the loop.
\<close>

theorem uninstall_retry:
  "(k < 10 \<and> env k = Returns (JStr ''ok'') \<and> (\<forall>j<k. env j \<noteq> Returns (JStr ''ok'')) \<longrightarrow>
      uninstall_loop S env salt_id 0 0 w =
        (False, w\<lparr>http_posts := http_posts w @ replicate (Suc k) (uninstall_request S salt_id)\<rparr>)
      \<and> uninstall_agent_task S env key_delete_raises salt_id False w =
        (''ok'',
         w\<lparr>http_posts := http_posts w @ replicate (Suc k) (uninstall_request S salt_id)
                           @ [key_delete_request S salt_id],
           logged := logged w @ [(INFO, salt_id @ '' was successfully uninstalled'')]
                       @ (if key_delete_raises
                          then [(ERROR, salt_id @ '' unable to remove salt-key'')] else [])\<rparr>))
   \<and> ((\<forall>j<10. env j \<noteq> Returns (JStr ''ok'')) \<longrightarrow>
      uninstall_loop S env salt_id 0 0 w =
        (True, w\<lparr>http_posts := http_posts w @ replicate 10 (uninstall_request S salt_id)\<rparr>)
      \<and> uninstall_agent_task S env key_delete_raises salt_id False w =
        (''ok'',
         w\<lparr>http_posts := http_posts w @ replicate 10 (uninstall_request S salt_id)
                           @ [key_delete_request S salt_id],
           logged := logged w @ [(ERROR, salt_id @ '' uninstall failed'')]
                       @ (if key_delete_raises
                          then [(ERROR, salt_id @ '' unable to remove salt-key'')] else [])\<rparr>))"
proof (intro conjI impI)
  assume h: "k < 10 \<and> env k = Returns (JStr ''ok'') \<and> (\<forall>j<k. env j \<noteq> Returns (JStr ''ok''))"
  then have loop: "uninstall_loop S env salt_id 0 0 w =
      (False, posts (Suc k) (uninstall_request S salt_id) w)"
    by (intro uninstall_loop_success) simp_all
  then show "uninstall_loop S env salt_id 0 0 w =
        (False, w\<lparr>http_posts := http_posts w @ replicate (Suc k) (uninstall_request S salt_id)\<rparr>)"
    by (simp add: posts_def)
  show "uninstall_agent_task S env key_delete_raises salt_id False w =
        (''ok'',
         w\<lparr>http_posts := http_posts w @ replicate (Suc k) (uninstall_request S salt_id)
                           @ [key_delete_request S salt_id],
           logged := logged w @ [(INFO, salt_id @ '' was successfully uninstalled'')]
                       @ (if key_delete_raises
                          then [(ERROR, salt_id @ '' unable to remove salt-key'')] else [])\<rparr>)"
    by (simp add: uninstall_agent_task_def loop posts_def post_def logger_def)
next
  assume h: "\<forall>j<10. env j \<noteq> Returns (JStr ''ok'')"
  then have loop: "uninstall_loop S env salt_id 0 0 w =
      (True, posts 10 (uninstall_request S salt_id) w)"
    by (rule uninstall_loop_exhausted)
  then show "uninstall_loop S env salt_id 0 0 w =
        (True, w\<lparr>http_posts := http_posts w @ replicate 10 (uninstall_request S salt_id)\<rparr>)"
    by (simp add: posts_def)
  show "uninstall_agent_task S env key_delete_raises salt_id False w =
        (''ok'',
         w\<lparr>http_posts := http_posts w @ replicate 10 (uninstall_request S salt_id)
                           @ [key_delete_request S salt_id],
           logged := logged w @ [(ERROR, salt_id @ '' uninstall failed'')]
                       @ (if key_delete_raises
                          then [(ERROR, salt_id @ '' unable to remove salt-key'')] else [])\<rparr>)"
    by (simp add: uninstall_agent_task_def loop posts_def post_def logger_def)
qed

theorem uninstall_retry_witness:
  "uninstall_agent_task ex_settings ex_env_ninth False ''minion-1'' False ex_world =
     (''ok'',
      ex_world\<lparr>http_posts := replicate 10 (uninstall_request ex_settings ''minion-1'')
                              @ [key_delete_request ex_settings ''minion-1''],
               logged := [(INFO, ''minion-1 was successfully uninstalled'')]\<rparr>)
   \<and> uninstall_agent_task ex_settings ex_env_down False ''minion-1'' False ex_world =
     (''ok'',
      ex_world\<lparr>http_posts := replicate 10 (uninstall_request ex_settings ''minion-1'')
                              @ [key_delete_request ex_settings ''minion-1''],
               logged := [(ERROR, ''minion-1 uninstall failed'')]\<rparr>)"
  using uninstall_retry [where k = 9 and env = ex_env_ninth and S = ex_settings
      and salt_id = "''minion-1''" and w = ex_world and key_delete_raises = False]
    uninstall_retry [where k = 0 and env = ex_env_down and S = ex_settings
      and salt_id = "''minion-1''" and w = ex_world and key_delete_raises = False]
  by (simp add: ex_env_ninth_def ex_env_down_def ex_world_def)

text \<open>
  C6. The uninstall task returns \<open>ok\<close> whatever the retry loop and the key-delete step
  did: for every sequence of attempt outcomes, every outcome of the key-delete request
  and both kinds of agent.
\<close>

theorem uninstall_returns_ok:
  "fst (uninstall_agent_task S env key_delete_raises salt_id nats w) = ''ok''"
  by (simp add: uninstall_agent_task_def Let_def split: prod.splits)

theorem uninstall_returns_ok_witness:
  "fst (uninstall_agent_task ex_settings ex_env_down True ''minion-1'' False ex_world) = ''ok''
   \<and> fst (uninstall_agent_task ex_settings ex_env_ninth False ''minion-1'' True ex_world) = ''ok''"
  using uninstall_returns_ok [of ex_settings ex_env_down True "''minion-1''" False ex_world]
    uninstall_returns_ok [of ex_settings ex_env_ninth False "''minion-1''" True ex_world]
  by simp

section \<open>The outage tracker\<close>


lemma outages_of_step:
  "outages_of (outage_step clock w a) p =
     outages_of w p @
       (if wants_outage clock a \<and> \<not> last_active w (agent_pk a) \<and> agent_pk a = p
        then [new_outage w p] else [])"
  by (auto simp: outage_step_def wants_outage_def last_active_def outages_of_def Let_def
      delay_def new_outage_def)

lemma is_active_new_outage: "is_active (new_outage w p)"
  by (simp add: is_active_def new_outage_def)

lemma last_active_step:
  "last_active (outage_step clock w a) p \<longleftrightarrow>
     last_active w p \<or> (wants_outage clock a \<and> agent_pk a = p)"
  by (auto simp: last_active_def [of "outage_step clock w a"] outages_of_step
      is_active_new_outage)
     (auto simp: last_active_def)





lemma outages_of_sweep_active:
  "last_active w p \<Longrightarrow> outages_of (foldl (outage_step clock) w as) p = outages_of w p"
proof (induction as arbitrary: w)
  case Nil
  then show ?case by simp
next
  case (Cons x xs)
  have "last_active (outage_step clock w x) p" using Cons.prems by (simp add: last_active_step)
  then have "outages_of (foldl (outage_step clock) (outage_step clock w x) xs) p =
      outages_of (outage_step clock w x) p"
    by (rule Cons.IH)
  then show ?case using Cons.prems by (auto simp: outages_of_step)
qed

lemma outages_of_sweep_new:
  "\<exists>a\<in>set as. wants_outage clock a \<and> agent_pk a = p \<Longrightarrow> \<not> last_active w p \<Longrightarrow>
   \<exists>outage. outages_of (foldl (outage_step clock) w as) p = outages_of w p @ [outage]
      \<and> is_active outage \<and> outage_agent outage = p"
proof (induction as arbitrary: w)
  case Nil
  then show ?case by simp
next
  case (Cons x xs)
  show ?case
  proof (cases "wants_outage clock x \<and> agent_pk x = p")
    case True
    then have "last_active (outage_step clock w x) p" by (simp add: last_active_step)
    then have "outages_of (foldl (outage_step clock) (outage_step clock w x) xs) p =
      outages_of (outage_step clock w x) p"
      by (rule outages_of_sweep_active)
    also have "\<dots> = outages_of w p @ [new_outage w p]"
      using True Cons.prems(2) by (simp add: outages_of_step)
    finally have "outages_of (foldl (outage_step clock) w (x # xs)) p =
        outages_of w p @ [new_outage w p]"
      by simp
    moreover have "outage_agent (new_outage w p) = p"
      by (simp add: new_outage_def)
    ultimately show ?thesis
      using is_active_new_outage by blast
  next
    case False
    then have ex: "\<exists>a\<in>set xs. wants_outage clock a \<and> agent_pk a = p"
      using Cons.prems(1) by auto
    have na: "\<not> last_active (outage_step clock w x) p"
      using False Cons.prems(2) by (auto simp: last_active_step)
    have same: "outages_of (outage_step clock w x) p = outages_of w p"
      using False by (auto simp: outages_of_step)
    show ?thesis
      using Cons.IH [OF ex na] by (simp add: same)
  qed
qed

lemmas sweep_defs = agent_outages_task_def outage_step_def outages_of_def is_active_def
  new_outage_def delay_def status_def Let_def




text \<open>
  C9. The dedup check of the sweep looks at the agent's latest AgentOutage only. For an
  agent of the registry with an alert flag set and status \<open>overdue\<close> at the sweep's read
  whose latest outage is not active, the sweep appends one new active outage, whatever the
  older records are: the active outages of the agent are those it had, and the new one.
\<close>

theorem outage_dedup_latest_only:
  assumes "a \<in> set (agents w)"
    and "overdue_email_alert a \<or> overdue_text_alert a"
    and "status (clock (agent_pk a)) a = ''overdue''"
    and "outages_of w (agent_pk a) \<noteq> []"
    and "\<not> is_active (last (outages_of w (agent_pk a)))"
  shows "\<exists>outage. outages_of (agent_outages_task clock w) (agent_pk a) =
           outages_of w (agent_pk a) @ [outage]
      \<and> is_active outage \<and> outage_agent outage = agent_pk a
      \<and> filter is_active (outages_of (agent_outages_task clock w) (agent_pk a)) =
           filter is_active (outages_of w (agent_pk a)) @ [outage]"
proof -
  have ex: "\<exists>b\<in>set (agents w). wants_outage clock b \<and> agent_pk b = agent_pk a"
    using assms(1-3) by (auto simp: wants_outage_def)
  have na: "\<not> last_active w (agent_pk a)"
    using assms(5) by (simp add: last_active_def)
  from outages_of_sweep_new [OF ex na]
  obtain outage where "outages_of (foldl (outage_step clock) w (agents w)) (agent_pk a) =
        outages_of w (agent_pk a) @ [outage]"
      and "is_active outage" and "outage_agent outage = agent_pk a"
    by blast
  then show ?thesis
    by (auto simp: agent_outages_task_def)
qed

theorem outage_dedup_latest_only_witness:
  "is_active (hd (outages_of ex_world_outages 1))
   \<and> \<not> is_active (last (outages_of ex_world_outages 1))
   \<and> filter is_active (outages_of (agent_outages_task (\<lambda>pk. 200) ex_world_outages) 1) =
       [\<lparr>outage_pk = 1, outage_agent = 1, recovery_time = None,
         outage_email_sent = True, outage_sms_sent = False,
         recovery_email_sent = False, recovery_sms_sent = False\<rparr>,
        \<lparr>outage_pk = 3, outage_agent = 1, recovery_time = None,
         outage_email_sent = False, outage_sms_sent = False,
         recovery_email_sent = False, recovery_sms_sent = False\<rparr>]"
  using outage_dedup_latest_only [of ex_legacy ex_world_outages "\<lambda>pk. 200"]
  by (simp add: sweep_defs ex_world_outages_def ex_world_def ex_legacy_def)

lemma get_outage_pk: "get_outage w pk = Inr outage \<Longrightarrow> outage_pk outage = pk"
  by (auto simp: get_outage_def find_Some_iff split: option.splits)

text \<open>
  C10. Each of the four notification jobs writes its confirmation flag only after the
  notifier call has returned. If the call raises, the job ends with an error and the
  world is as before. If it returns, the job sets its own flag on the outage of the given
  key and changes no other field and no other row.
\<close>

theorem notification_confirms_after_notifier:
  "snd (agent_outage_email_task True pk w) = w
   \<and> snd (agent_recovery_email_task True pk w) = w
   \<and> snd (agent_outage_sms_task True pk w) = w
   \<and> snd (agent_recovery_sms_task True pk w) = w
   \<and> fst (agent_outage_email_task True pk w) \<noteq> Inr ()
   \<and> fst (agent_recovery_email_task True pk w) \<noteq> Inr ()
   \<and> fst (agent_outage_sms_task True pk w) \<noteq> Inr ()
   \<and> fst (agent_recovery_sms_task True pk w) \<noteq> Inr ()
   \<and> (get_outage w pk = Inr outage \<longrightarrow>
        agent_outage_email_task False pk w =
          (Inr (),
           w\<lparr>agentoutages :=
                map (\<lambda>r. if outage_pk r = pk then r\<lparr>outage_email_sent := True\<rparr> else r)
                  (agentoutages w),
             notified := notified w @ [Outage_email pk]\<rparr>)
        \<and> agent_recovery_email_task False pk w =
          (Inr (),
           w\<lparr>agentoutages :=
                map (\<lambda>r. if outage_pk r = pk then r\<lparr>recovery_email_sent := True\<rparr> else r)
                  (agentoutages w),
             notified := notified w @ [Recovery_email pk]\<rparr>)
        \<and> agent_outage_sms_task False pk w =
          (Inr (),
           w\<lparr>agentoutages :=
                map (\<lambda>r. if outage_pk r = pk then r\<lparr>outage_sms_sent := True\<rparr> else r)
                  (agentoutages w),
             notified := notified w @ [Outage_sms pk]\<rparr>)
        \<and> agent_recovery_sms_task False pk w =
          (Inr (),
           w\<lparr>agentoutages :=
                map (\<lambda>r. if outage_pk r = pk then r\<lparr>recovery_sms_sent := True\<rparr> else r)
                  (agentoutages w),
             notified := notified w @ [Recovery_sms pk]\<rparr>))"
proof -
  have raised: "snd (agent_outage_email_task True pk w) = w"
      "snd (agent_recovery_email_task True pk w) = w"
      "snd (agent_outage_sms_task True pk w) = w"
      "snd (agent_recovery_sms_task True pk w) = w"
      "fst (agent_outage_email_task True pk w) \<noteq> Inr ()"
      "fst (agent_recovery_email_task True pk w) \<noteq> Inr ()"
      "fst (agent_outage_sms_task True pk w) \<noteq> Inr ()"
      "fst (agent_recovery_sms_task True pk w) \<noteq> Inr ()"
    by (simp_all add: agent_outage_email_task_def agent_recovery_email_task_def
        agent_outage_sms_task_def agent_recovery_sms_task_def split: sum.splits)
  have returned: "agent_outage_email_task False pk w =
          (Inr (),
           w\<lparr>agentoutages :=
                map (\<lambda>r. if outage_pk r = pk then r\<lparr>outage_email_sent := True\<rparr> else r)
                  (agentoutages w),
             notified := notified w @ [Outage_email pk]\<rparr>)
        \<and> agent_recovery_email_task False pk w =
          (Inr (),
           w\<lparr>agentoutages :=
                map (\<lambda>r. if outage_pk r = pk then r\<lparr>recovery_email_sent := True\<rparr> else r)
                  (agentoutages w),
             notified := notified w @ [Recovery_email pk]\<rparr>)
        \<and> agent_outage_sms_task False pk w =
          (Inr (),
           w\<lparr>agentoutages :=
                map (\<lambda>r. if outage_pk r = pk then r\<lparr>outage_sms_sent := True\<rparr> else r)
                  (agentoutages w),
             notified := notified w @ [Outage_sms pk]\<rparr>)
        \<and> agent_recovery_sms_task False pk w =
          (Inr (),
           w\<lparr>agentoutages :=
                map (\<lambda>r. if outage_pk r = pk then r\<lparr>recovery_sms_sent := True\<rparr> else r)
                  (agentoutages w),
             notified := notified w @ [Recovery_sms pk]\<rparr>)"
    if g: "get_outage w pk = Inr outage"
    using g get_outage_pk [OF g]
    by (simp add: agent_outage_email_task_def agent_recovery_email_task_def
        agent_outage_sms_task_def agent_recovery_sms_task_def save_outage_field_def)
  from raised returned show ?thesis by blast
qed

theorem notification_confirms_after_notifier_witness:
  "agent_outage_email_task True 2 ex_world_outages = (Inl NotifierError, ex_world_outages)
   \<and> agentoutages (snd (agent_outage_sms_task False 1 ex_world_outages)) =
       [\<lparr>outage_pk = 1, outage_agent = 1, recovery_time = None,
         outage_email_sent = True, outage_sms_sent = True,
         recovery_email_sent = False, recovery_sms_sent = False\<rparr>,
        \<lparr>outage_pk = 2, outage_agent = 1, recovery_time = Some 5,
         outage_email_sent = True, outage_sms_sent = True,
         recovery_email_sent = True, recovery_sms_sent = False\<rparr>]"
  using notification_confirms_after_notifier [where pk = 1 and w = ex_world_outages
      and outage = "\<lparr>outage_pk = 1, outage_agent = 1, recovery_time = None,
                  outage_email_sent = True, outage_sms_sent = False,
                  recovery_email_sent = False, recovery_sms_sent = False\<rparr>"]
  by (simp add: get_outage_def ex_world_outages_def ex_world_def agent_outage_email_task_def)

section \<open>The script-run notifier\<close>

text \<open>
  C8. When the bounded call for \<open>runscriptfull\<close> reports \<open>timeout\<close>, the task logs the
  timeout and returns: the world changes by the call and the log entry only, and nothing
  is handed to the mail transport.
\<close>

theorem run_script_timeout_no_email:
  assumes "get_agent w agentpk = Inr a" and "get_script w scriptpk = Inr s"
  shows "run_script_email_results_task (Reply_str ''timeout'') smtp agentpk scriptpk
           nats_timeout data emails w =
           (Inr (),
            w\<lparr>nats_called := nats_called w @
                 [(agentpk, data\<lparr>func := ''runscriptfull''\<rparr>, nats_timeout)],
              logged := logged w @ [(ERROR, hostname a @ '' timed out running script.'')]\<rparr>)
         \<and> smtp_trace (snd (run_script_email_results_task (Reply_str ''timeout'') smtp
              agentpk scriptpk nats_timeout data emails w)) = smtp_trace w"
  using assms get_agent_pk [OF assms(1)]
  by (simp add: run_script_email_results_task_def nats_cmd_wait_def logger_def)

theorem run_script_timeout_no_email_witness:
  "run_script_email_results_task (Reply_str ''timeout'') Smtp_ok 1 1 30
       \<lparr>func = '''', payload = [(''code'', ''dir'')]\<rparr> [''admin@example.com''] ex_world =
     (Inr (),
      ex_world\<lparr>nats_called := [(1, \<lparr>func = ''runscriptfull'', payload = [(''code'', ''dir'')]\<rparr>, 30)],
               logged := [(ERROR, ''WS-01 timed out running script.'')]\<rparr>)
   \<and> smtp_trace (snd (run_script_email_results_task
        (Reply_dict \<lparr>retcode = 0, execution_time_4f = ''0.1234'', stdout = ''ok'', stderr = ''''\<rparr>)
        Smtp_ok 1 1 30 \<lparr>func = '''', payload = [(''code'', ''dir'')]\<rparr> [''admin@example.com'']
        ex_world)) =
     [Connect ''smtp.example.com'' 587 20, Ehlo, Starttls, Login ''rmm'' ''secret'',
      Send_message
        \<lparr>msg_subject = ''WS-01 cleanup Results'', msg_from = ''rmm@example.com'',
         msg_to = ''admin@example.com'',
         msg_content = ''WS-01 cleanup Results'' @ [CHR 0x0A] @ ''Return code: 0''
           @ [CHR 0x0A] @ ''Execution time: 0.1234 seconds''
           @ [CHR 0x0A] @ ''Stdout: ok'' @ [CHR 0x0A] @ ''Stderr: ''\<rparr>,
      Quit]"
  using run_script_timeout_no_email [where w = ex_world and agentpk = 1 and a = ex_legacy
      and scriptpk = 1 and s = "\<lparr>script_pk = 1, script_name = ''cleanup''\<rparr>"
      and smtp = Smtp_ok and nats_timeout = 30
      and data = "\<lparr>func = '''', payload = [(''code'', ''dir'')]\<rparr>"
      and emails = "[''admin@example.com'']"]
  by (simp add: get_agent_def get_script_def ex_world_def ex_legacy_def ex_core_def
      run_script_email_results_task_def nats_cmd_wait_def report_subject_def report_body_def
      smtp_session_def str_int_def)

end
